theory Spec2Isabelle
  imports Main
begin

section \<open>The data of \<open>src/App.tsx\<close>\<close>

text \<open>
  The component \<open>App\<close> is embedded as a state machine. Its state is what React keeps for
  it between renders (\<open>isProcessing\<close>, \<open>messages\<close>, the reference cell
  \<open>conversationRef\<close>), the values last returned by the hook \<open>useSpeechRecognition\<close>, the
  calls it has made to its collaborators (speech synthesis, speech recognition, \<open>fetch\<close>,
  the console), oldest first, and the requests whose promise has not settled yet.

  Names follow the source. The field \<open>text\<close> of \<open>Message\<close> is written \<open>text'\<close> and the field
  \<open>id\<close> of the reference cell \<open>id'\<close>, since \<open>text\<close> is a command of Isabelle and \<open>id\<close> a
  constant of HOL.
\<close>

datatype message_type = Prompt | Response

record Message =
  type :: message_type
  text' :: string

record CreateChatGPTMessageResponse =
  answer :: string
  conversationId :: string
  messageId :: string

text \<open>The object held by \<open>conversationRef.current\<close> (line 44).\<close>

record conversation =
  id' :: string
  currentMessageId :: string

text \<open>
  The object given to \<open>JSON.stringify\<close> at lines 88 to 93. A field whose value is
  \<open>undefined\<close> is left out of the JSON text; \<open>None\<close> stands for that.
\<close>

record chatgpt_request =
  req_text :: string
  req_conversationId :: "string option"
  req_parentMessageId :: "string option"

text \<open>The values destructured from \<open>useSpeechRecognition()\<close> at lines 29 to 35.\<close>

record speech_recognition =
  browserSupportsSpeechRecognition :: bool
  isMicrophoneAvailable :: bool
  transcript :: string
  listening :: bool
  finalTranscript :: string

text \<open>The calls the component makes to the outside, in the order it makes them.\<close>

datatype call =
    SpeechSynthesis_cancel
  | SpeechSynthesis_speak string
  | StartListening
  | AbortListening
  | Fetch chatgpt_request
  | Console_warn

record app_state =
  isProcessing :: bool
  messages :: "Message list"
  conversationRef :: conversation
  speech :: speech_recognition
  calls :: "call list"
  inflight :: "chatgpt_request list"

text \<open>
  How a request ends. \<open>fetch\<close> rejects when no response arrives and resolves with the
  response for every HTTP status; \<open>res.json()\<close> rejects when the body is not JSON text.
  The decoded value has the type the source declares for it at line 96.
\<close>

datatype response_body = Undecodable | Decoded CreateChatGPTMessageResponse

datatype fetch_outcome = NetworkError | HttpResponse nat response_body

datatype 'a promise = Resolved 'a | Rejected

datatype event =
    SpeechUpdate speech_recognition
  | ClickMic
  | Settle nat fetch_outcome

datatype turn_status = Idle | Listening | AwaitingAnswer

datatype rendered =
    Unsupported_notice
  | Main_view "(Message \<times> bool) list" "string option" bool bool

section \<open>The functions of \<open>App\<close>\<close>

text \<open>JavaScript's \<open>x || undefined\<close> on a string: the empty string is falsy.\<close>

definition or_undefined :: "string \<Rightarrow> string option" where
  "or_undefined x = (if x \<noteq> [] then Some x else None)"

definition initial_messages :: "Message list" where
  "initial_messages =
     [\<lparr>type = Prompt, text' = ''Where is the Empire State Building?''\<rparr>,
      \<lparr>type = Response,
       text' = ''Lorem ipsum dolor sit amet, consectetur adipiscing elit. Sed sit amet elementum quam. Mauris sit amet tincidunt lacus. Quisque nec commodo ante. Duis ullamcorper suscipit lacus, a feugiat mauris. Integer rhoncus erat consequat nisi cursus porttitor.''\<rparr>]"

definition failure_response :: string where
  "failure_response = ''Failed to get the response, please try again''"

text \<open>The state of the first render, for the hook values \<open>h\<close> of that render.\<close>

definition initial_state :: "speech_recognition \<Rightarrow> app_state" where
  "initial_state h =
     \<lparr>isProcessing = False,
      messages = initial_messages,
      conversationRef = \<lparr>id' = [], currentMessageId = []\<rparr>,
      speech = h,
      calls = [],
      inflight = []\<rparr>"

text \<open>\<open>recognizeSpeech\<close>, lines 47 to 54.\<close>

definition recognizeSpeech :: "app_state \<Rightarrow> app_state" where
  "recognizeSpeech s =
     (if listening (speech s)
      then s\<lparr>calls := calls s @ [AbortListening]\<rparr>
      else s\<lparr>calls := calls s @ [SpeechSynthesis_cancel, StartListening]\<rparr>)"

text \<open>\<open>speak\<close>, lines 56 to 60.\<close>

definition speak :: "string \<Rightarrow> app_state \<Rightarrow> app_state" where
  "speak t s = s\<lparr>calls := calls s @ [SpeechSynthesis_cancel, SpeechSynthesis_speak t]\<rparr>"

text \<open>The body of the request, lines 88 to 93.\<close>

definition request_body :: "string \<Rightarrow> conversation \<Rightarrow> chatgpt_request" where
  "request_body ft c =
     \<lparr>req_text = ft,
      req_conversationId = or_undefined (id' c),
      req_parentMessageId = or_undefined (currentMessageId c)\<rparr>"

text \<open>
  The effect of lines 74 to 118, up to the call of \<open>fetch\<close>. It reads \<open>finalTranscript\<close>
  from the hook values of the current render.
\<close>

definition finalTranscript_effect :: "app_state \<Rightarrow> app_state" where
  "finalTranscript_effect s =
     (let ft = finalTranscript (speech s) in
      if ft \<noteq> [] then
        (let req = request_body ft (conversationRef s) in
         s\<lparr>messages := messages s @ [\<lparr>type = Prompt, text' = ft\<rparr>],
           isProcessing := True,
           calls := calls s @ [Fetch req],
           inflight := inflight s @ [req]\<rparr>)
      else s)"

text \<open>The first two links of the promise chain: \<open>fetch(...).then((res) => res.json())\<close>.\<close>

definition fetch_then_json :: "fetch_outcome \<Rightarrow> CreateChatGPTMessageResponse promise" where
  "fetch_then_json out =
     (case out of
        NetworkError \<Rightarrow> Rejected
      | HttpResponse status body \<Rightarrow>
          (case body of Undecodable \<Rightarrow> Rejected | Decoded res \<Rightarrow> Resolved res))"

text \<open>The handler of lines 96 to 104.\<close>

definition then_handler :: "CreateChatGPTMessageResponse \<Rightarrow> app_state \<Rightarrow> app_state" where
  "then_handler res s =
     speak (answer res)
       (s\<lparr>conversationRef := \<lparr>id' = conversationId res, currentMessageId = messageId res\<rparr>,
          messages := messages s @ [\<lparr>type = Response, text' = answer res\<rparr>]\<rparr>)"

text \<open>The handler of lines 105 to 113.\<close>

definition catch_handler :: "app_state \<Rightarrow> app_state" where
  "catch_handler s =
     speak failure_response
       (s\<lparr>calls := calls s @ [Console_warn],
          messages := messages s @ [\<lparr>type = Response, text' = failure_response\<rparr>]\<rparr>)"

text \<open>The handler of lines 114 to 116.\<close>

definition finally_handler :: "app_state \<Rightarrow> app_state" where
  "finally_handler s = s\<lparr>isProcessing := False\<rparr>"

text \<open>
  The promise of the \<open>i\<close>-th request in flight settles: the chain runs \<open>then\<close> or
  \<open>catch\<close>, and \<open>finally\<close> after either. The handlers run as consecutive microtasks, so
  no other event comes between them.
\<close>

definition settle :: "nat \<Rightarrow> fetch_outcome \<Rightarrow> app_state \<Rightarrow> app_state" where
  "settle i out s =
     (let s1 = s\<lparr>inflight := take i (inflight s) @ drop (Suc i) (inflight s)\<rparr> in
      finally_handler
        (case fetch_then_json out of
           Resolved res \<Rightarrow> then_handler res s1
         | Rejected \<Rightarrow> catch_handler s1))"

text \<open>\<open>getIsActive\<close>, lines 146 to 159. JavaScript numbers do not truncate at zero.\<close>

definition getIsActive :: "bool \<Rightarrow> Message list \<Rightarrow> message_type \<Rightarrow> nat \<Rightarrow> bool" where
  "getIsActive isListening ms ty index =
     (if isListening then False
      else if ty = Prompt then
        (int index = int (length ms) - 1 \<or> int index = int (length ms) - 2)
      else if ty = Response then int index = int (length ms) - 1
      else False)"

text \<open>The attribute \<open>disabled\<close> of the mic button, line 199.\<close>

definition mic_disabled :: "app_state \<Rightarrow> bool" where
  "mic_disabled s = isProcessing s"

text \<open>The three appearances of the mic button, lines 191 to 211.\<close>

definition turnStatus :: "app_state \<Rightarrow> turn_status" where
  "turnStatus s =
     (if listening (speech s) then Listening
      else if isProcessing s then AwaitingAnswer
      else Idle)"

text \<open>
  What \<open>App\<close> returns, lines 120 to 224: the notice, or the entries with their \<open>isActive\<close>
  flag, the live transcript line of line 169, the \<open>disabled\<close> attribute of the mic button
  and whether the microphone advice of lines 219 to 221 is shown.
\<close>

definition render :: "app_state \<Rightarrow> rendered" where
  "render s =
     (if \<not> browserSupportsSpeechRecognition (speech s) then Unsupported_notice
      else Main_view
        (map (\<lambda>(index, m). (m, getIsActive (listening (speech s)) (messages s) (type m) index))
           (enumerate 0 (messages s)))
        (if listening (speech s) then Some (transcript (speech s)) else None)
        (mic_disabled s)
        (\<not> isMicrophoneAvailable (speech s)))"

section \<open>Events\<close>

text \<open>
  The first render runs every effect once. Later, the effect of lines 74 to 118 runs after
  a render in which \<open>finalTranscript\<close> differs from the render before (its dependency
  array, line 118; \<open>speak\<close> never changes). A click reaches \<open>recognizeSpeech\<close> when the
  button is on the page and not disabled. A request settles when it is in flight.
\<close>

definition mount :: "speech_recognition \<Rightarrow> app_state" where
  "mount h = finalTranscript_effect (initial_state h)"

definition mic_clickable :: "app_state \<Rightarrow> bool" where
  "mic_clickable s = (browserSupportsSpeechRecognition (speech s) \<and> \<not> mic_disabled s)"

fun step :: "app_state \<Rightarrow> event \<Rightarrow> app_state" where
  "step s (SpeechUpdate h) =
     (if finalTranscript h \<noteq> finalTranscript (speech s)
      then finalTranscript_effect (s\<lparr>speech := h\<rparr>)
      else s\<lparr>speech := h\<rparr>)"
| "step s ClickMic = (if mic_clickable s then recognizeSpeech s else s)"
| "step s (Settle i out) = (if i < length (inflight s) then settle i out s else s)"

fun run :: "app_state \<Rightarrow> event list \<Rightarrow> app_state" where
  "run s [] = s"
| "run s (e # es) = run (step s e) es"

section \<open>Observations on traces\<close>

definition is_prompt :: "Message \<Rightarrow> bool" where
  "is_prompt m = (type m = Prompt)"

text \<open>
  The values of \<open>finalTranscript\<close> with which the effect of lines 74 to 118 runs along a
  trace, after the first render; \<open>prev\<close> is the value of the render before.
\<close>

fun effect_runs :: "string \<Rightarrow> event list \<Rightarrow> string list" where
  "effect_runs prev [] = []"
| "effect_runs prev (SpeechUpdate h # es) =
     (if finalTranscript h \<noteq> prev
      then finalTranscript h # effect_runs (finalTranscript h) es
      else effect_runs prev es)"
| "effect_runs prev (ClickMic # es) = effect_runs prev es"
| "effect_runs prev (Settle i out # es) = effect_runs prev es"

text \<open>The event makes the effect call \<open>fetch\<close>.\<close>

fun issues_request :: "app_state \<Rightarrow> event \<Rightarrow> bool" where
  "issues_request s (SpeechUpdate h) =
     (finalTranscript h \<noteq> finalTranscript (speech s) \<and> finalTranscript h \<noteq> [])"
| "issues_request s ClickMic = False"
| "issues_request s (Settle i out) = False"

text \<open>Along the trace, no request is issued while another one is in flight.\<close>

fun no_overlap :: "app_state \<Rightarrow> event list \<Rightarrow> bool" where
  "no_overlap s [] = True"
| "no_overlap s (e # es) =
     ((issues_request s e \<longrightarrow> inflight s = []) \<and> no_overlap (step s e) es)"

definition one_at_a_time :: "app_state \<Rightarrow> bool" where
  "one_at_a_time s = (length (inflight s) \<le> 1 \<and> isProcessing s = (inflight s \<noteq> []))"



text \<open>The status of the response is one of 200 to 299.\<close>

definition is_2xx :: "nat \<Rightarrow> bool" where
  "is_2xx status = (200 \<le> status \<and> status < 300)"

text \<open>
  The event is no settlement, or the settlement of a request that got no response or a
  body that does not decode, or of one that got a response of status 2xx whose
  \<open>conversationId\<close> is not empty.
\<close>

fun keeps_id :: "event \<Rightarrow> bool" where
  "keeps_id (Settle i NetworkError) = True"
| "keeps_id (Settle i (HttpResponse status Undecodable)) = True"
| "keeps_id (Settle i (HttpResponse status (Decoded res))) =
     (is_2xx status \<and> conversationId res \<noteq> [])"
| "keeps_id (SpeechUpdate h) = True"
| "keeps_id ClickMic = True"

definition nonempty_ids :: "event list \<Rightarrow> bool" where
  "nonempty_ids es = list_all keeps_id es"





section \<open>Sample sessions\<close>

definition quiet_hook :: speech_recognition where
  "quiet_hook =
     \<lparr>browserSupportsSpeechRecognition = True, isMicrophoneAvailable = True,
      transcript = [], listening = False, finalTranscript = []\<rparr>"

definition heard :: "string \<Rightarrow> speech_recognition" where
  "heard t = quiet_hook\<lparr>transcript := t, finalTranscript := t\<rparr>"

definition one_turn_trace :: "event list" where
  "one_turn_trace =
     [ClickMic, SpeechUpdate (quiet_hook\<lparr>listening := True\<rparr>), SpeechUpdate (heard ''hello'')]"

definition awaiting :: app_state where
  "awaiting = run (mount quiet_hook) one_turn_trace"

definition overlapping_trace :: "event list" where
  "overlapping_trace =
     [SpeechUpdate (heard ''a''), SpeechUpdate (heard ''a b''), Settle 0 NetworkError]"

definition second_turn_trace :: "event list" where
  "second_turn_trace =
     [SpeechUpdate (heard ''hello''),
      Settle 0 (HttpResponse 200
        (Decoded \<lparr>answer = ''hi'', conversationId = ''c1'', messageId = ''m1''\<rparr>)),
      SpeechUpdate quiet_hook,
      SpeechUpdate (heard ''again'')]"

definition threaded :: app_state where
  "threaded = run (mount quiet_hook) second_turn_trace"

definition not_found :: fetch_outcome where
  "not_found =
     HttpResponse 404
       (Decoded \<lparr>answer = ''Not Found'', conversationId = [], messageId = []\<rparr>)"

definition unsupported_hook :: speech_recognition where
  "unsupported_hook = quiet_hook\<lparr>browserSupportsSpeechRecognition := False\<rparr>"

definition cleared_id_trace :: "event list" where
  "cleared_id_trace =
     [SpeechUpdate (heard ''hello''),
      Settle 0 (HttpResponse 200
        (Decoded \<lparr>answer = ''hi'', conversationId = ''c1'', messageId = ''m1''\<rparr>)),
      SpeechUpdate quiet_hook,
      SpeechUpdate (heard ''again''),
      Settle 0 (HttpResponse 200
        (Decoded \<lparr>answer = ''hi again'', conversationId = [], messageId = ''m2''\<rparr>))]"

definition server_error :: fetch_outcome where
  "server_error =
     HttpResponse 500
       (Decoded \<lparr>answer = ''Internal Server Error'', conversationId = [], messageId = []\<rparr>)"

definition asked :: "Message list" where
  "asked = initial_messages @ [\<lparr>type = Prompt, text' = ''And the Eiffel Tower?''\<rparr>]"

definition answered :: "Message list" where
  "answered = asked @ [\<lparr>type = Response, text' = ''In Paris''\<rparr>]"

section \<open>How the handlers and events act on each part of the state\<close>

lemmas handler_defs =
  settle_def finally_handler_def then_handler_def catch_handler_def speak_def fetch_then_json_def

lemmas sample_defs =
  mount_def initial_state_def quiet_hook_def heard_def finalTranscript_effect_def
  request_body_def or_undefined_def recognizeSpeech_def mic_clickable_def mic_disabled_def
  Let_def

lemma finalTranscript_effect_speech [simp]:
  "speech (finalTranscript_effect s) = speech s"
  by (simp add: finalTranscript_effect_def Let_def)

lemma settle_speech [simp]: "speech (settle i out s) = speech s"
  by (simp add: handler_defs Let_def split: promise.splits)

lemma recognizeSpeech_speech [simp]: "speech (recognizeSpeech s) = speech s"
  by (simp add: recognizeSpeech_def)

lemma recognizeSpeech_messages [simp]: "messages (recognizeSpeech s) = messages s"
  by (simp add: recognizeSpeech_def)

lemma conversationRef_finalTranscript_effect [simp]:
  "conversationRef (finalTranscript_effect s) = conversationRef s"
  by (simp add: finalTranscript_effect_def Let_def)

lemma conversationRef_recognizeSpeech [simp]:
  "conversationRef (recognizeSpeech s) = conversationRef s"
  by (simp add: recognizeSpeech_def)

lemma conversationRef_settle:
  "conversationRef (settle i out s) =
     (case fetch_then_json out of
        Resolved res \<Rightarrow> \<lparr>id' = conversationId res, currentMessageId = messageId res\<rparr>
      | Rejected \<Rightarrow> conversationRef s)"
  by (simp add: settle_def finally_handler_def then_handler_def catch_handler_def speak_def
      Let_def split: promise.splits)




lemma finalTranscript_effect_prompts:
  "length (filter is_prompt (messages (finalTranscript_effect s))) =
     length (filter is_prompt (messages s)) + (if finalTranscript (speech s) \<noteq> [] then 1 else 0)"
  by (simp add: finalTranscript_effect_def Let_def is_prompt_def)

lemma settle_prompts:
  "filter is_prompt (messages (settle i out s)) = filter is_prompt (messages s)"
  by (simp add: handler_defs Let_def is_prompt_def split: promise.splits)

lemma run_prompts:
  "length (filter is_prompt (messages (run s es))) =
     length (filter is_prompt (messages s))
       + length (filter (\<lambda>t. t \<noteq> []) (effect_runs (finalTranscript (speech s)) es))"
proof (induction es arbitrary: s)
  case Nil
  show ?case by simp
next
  case (Cons e es)
  show ?case
  proof (cases e)
    case (SpeechUpdate h)
    then show ?thesis
      by (simp add: Cons.IH finalTranscript_effect_prompts)
  next
    case ClickMic
    then show ?thesis by (simp add: Cons.IH)
  next
    case (Settle i out)
    then show ?thesis by (simp add: Cons.IH settle_prompts)
  qed
qed

lemma one_at_a_time_mount: "one_at_a_time (mount h)"
  by (simp add: one_at_a_time_def mount_def finalTranscript_effect_def initial_state_def Let_def)

lemma one_at_a_time_step:
  assumes "one_at_a_time s" and "issues_request s e \<longrightarrow> inflight s = []"
  shows "one_at_a_time (step s e)"
proof (cases e)
  case (SpeechUpdate h)
  with assms show ?thesis
    by (auto simp add: one_at_a_time_def finalTranscript_effect_def Let_def)
next
  case ClickMic
  with assms show ?thesis
    by (simp add: one_at_a_time_def recognizeSpeech_def)
next
  case (Settle i out)
  with assms show ?thesis
    by (auto simp add: one_at_a_time_def handler_defs Let_def split: promise.splits)
qed

lemma one_at_a_time_run:
  "one_at_a_time s \<Longrightarrow> no_overlap s es \<Longrightarrow> one_at_a_time (run s es)"
  by (induction es arbitrary: s) (simp_all add: one_at_a_time_step)





lemma getIsActive_positional:
  "getIsActive False ms ty i =
     (Suc i = length ms \<or> (Suc (Suc i) = length ms \<and> ty = Prompt))"
  by (cases ty) (auto simp add: getIsActive_def)

lemma awaiting_state:
  "awaiting =
     \<lparr>isProcessing = True,
      messages = initial_messages @ [\<lparr>type = Prompt, text' = ''hello''\<rparr>],
      conversationRef = \<lparr>id' = [], currentMessageId = []\<rparr>,
      speech = heard ''hello'',
      calls = [SpeechSynthesis_cancel, StartListening,
               Fetch \<lparr>req_text = ''hello'', req_conversationId = None,
                      req_parentMessageId = None\<rparr>],
      inflight = [\<lparr>req_text = ''hello'', req_conversationId = None,
                   req_parentMessageId = None\<rparr>]\<rparr>"
  by (simp add: awaiting_def one_turn_trace_def sample_defs)






lemma rejected_request:
  assumes "i < length (inflight s)" and "fetch_then_json out = Rejected"
  shows "messages (step s (Settle i out)) =
           messages s @ [\<lparr>type = Response, text' = failure_response\<rparr>]
       \<and> calls (step s (Settle i out)) =
           calls s @ [Console_warn, SpeechSynthesis_cancel, SpeechSynthesis_speak failure_response]
       \<and> conversationRef (step s (Settle i out)) = conversationRef s
       \<and> \<not> isProcessing (step s (Settle i out))"
  using assms by (simp add: handler_defs)

lemma threaded_state:
  "threaded =
     \<lparr>isProcessing = True,
      messages = initial_messages @
        [\<lparr>type = Prompt, text' = ''hello''\<rparr>, \<lparr>type = Response, text' = ''hi''\<rparr>,
         \<lparr>type = Prompt, text' = ''again''\<rparr>],
      conversationRef = \<lparr>id' = ''c1'', currentMessageId = ''m1''\<rparr>,
      speech = heard ''again'',
      calls = [Fetch \<lparr>req_text = ''hello'', req_conversationId = None,
                      req_parentMessageId = None\<rparr>,
               SpeechSynthesis_cancel, SpeechSynthesis_speak ''hi'',
               Fetch \<lparr>req_text = ''again'', req_conversationId = Some ''c1'',
                      req_parentMessageId = Some ''m1''\<rparr>],
      inflight = [\<lparr>req_text = ''again'', req_conversationId = Some ''c1'',
                   req_parentMessageId = Some ''m1''\<rparr>]\<rparr>"
  by (simp add: threaded_def second_turn_trace_def sample_defs handler_defs)

section \<open>The claims\<close>

text \<open>
  Claim C1, as the code has it. The mic button is disabled exactly while \<open>isProcessing\<close>
  is set: the effect sets it when it issues a request, \<open>finally\<close> clears it when any
  request in flight settles, and no other event changes it. Along every trace in which no
  request is issued while another is in flight, at most one request is in flight and the
  button is disabled exactly while one is. Where the platform has no speech recognition the
  notice is rendered in place of the page and its button.
\<close>

theorem C1_disabled_while_in_flight:
  "(no_overlap (mount h) es \<longrightarrow>
      mic_disabled (run (mount h) es) = (inflight (run (mount h) es) \<noteq> [])
    \<and> length (inflight (run (mount h) es)) \<le> 1)
 \<and> mic_disabled s = isProcessing s
 \<and> (issues_request s e \<longrightarrow> mic_disabled (step s e))
 \<and> (i < length (inflight s) \<longrightarrow> \<not> mic_disabled (step s (Settle i out)))
 \<and> (\<not> i < length (inflight s) \<longrightarrow> step s (Settle i out) = s)
 \<and> mic_disabled (step s ClickMic) = mic_disabled s
 \<and> (\<not> issues_request s (SpeechUpdate h') \<longrightarrow>
      mic_disabled (step s (SpeechUpdate h')) = mic_disabled s)
 \<and> (\<not> browserSupportsSpeechRecognition (speech s) \<longrightarrow> render s = Unsupported_notice)"
proof -
  have a: "no_overlap (mount h) es \<longrightarrow>
      mic_disabled (run (mount h) es) = (inflight (run (mount h) es) \<noteq> [])
    \<and> length (inflight (run (mount h) es)) \<le> 1"
    using one_at_a_time_run [OF one_at_a_time_mount, of h es]
    by (simp add: one_at_a_time_def mic_disabled_def)
  have b: "issues_request s e \<longrightarrow> mic_disabled (step s e)"
    by (cases e) (simp_all add: mic_disabled_def finalTranscript_effect_def Let_def)
  have c: "i < length (inflight s) \<longrightarrow> \<not> mic_disabled (step s (Settle i out))"
    by (simp add: mic_disabled_def handler_defs Let_def split: promise.splits)
  have d: "mic_disabled (step s ClickMic) = mic_disabled s"
    by (simp add: mic_disabled_def recognizeSpeech_def)
  have e: "\<not> issues_request s (SpeechUpdate h') \<longrightarrow>
      mic_disabled (step s (SpeechUpdate h')) = mic_disabled s"
    by (auto simp add: mic_disabled_def finalTranscript_effect_def Let_def)
  have f: "\<not> browserSupportsSpeechRecognition (speech s) \<longrightarrow> render s = Unsupported_notice"
    by (simp add: render_def)
  from a b c d e f show ?thesis
    by (simp add: mic_disabled_def)
qed

theorem C1_disabled_while_in_flight_witness:
  "no_overlap (mount quiet_hook) one_turn_trace
   \<and> mic_disabled (run (mount quiet_hook) one_turn_trace)
   \<and> inflight (run (mount quiet_hook) one_turn_trace) \<noteq> []
   \<and> issues_request (mount quiet_hook) (SpeechUpdate (heard ''hello''))
   \<and> mic_disabled (step (mount quiet_hook) (SpeechUpdate (heard ''hello'')))
   \<and> 0 < length (inflight awaiting)
   \<and> \<not> mic_disabled (step awaiting (Settle 0 NetworkError))
   \<and> \<not> 1 < length (inflight awaiting)
   \<and> step awaiting (Settle 1 NetworkError) = awaiting
   \<and> \<not> issues_request awaiting (SpeechUpdate quiet_hook)
   \<and> mic_disabled (step awaiting (SpeechUpdate quiet_hook))
   \<and> \<not> browserSupportsSpeechRecognition (speech (mount unsupported_hook))
   \<and> render (mount unsupported_hook) = Unsupported_notice"
proof -
  have ok: "no_overlap (mount quiet_hook) one_turn_trace"
    by (simp add: one_turn_trace_def sample_defs)
  have fl: "inflight (run (mount quiet_hook) one_turn_trace) \<noteq> []"
    by (simp add: one_turn_trace_def sample_defs)
  have iss: "issues_request (mount quiet_hook) (SpeechUpdate (heard ''hello''))"
    by (simp add: sample_defs)
  have len: "0 < length (inflight awaiting)" "\<not> 1 < length (inflight awaiting)"
    by (simp_all add: awaiting_state)
  have nis: "\<not> issues_request awaiting (SpeechUpdate quiet_hook)"
    by (simp add: awaiting_state quiet_hook_def)
  have dis: "mic_disabled awaiting"
    by (simp add: awaiting_state mic_disabled_def)
  have uns: "\<not> browserSupportsSpeechRecognition (speech (mount unsupported_hook))"
    by (simp add: unsupported_hook_def sample_defs)
  from ok fl iss len nis dis uns
    C1_disabled_while_in_flight [of quiet_hook one_turn_trace "mount quiet_hook"
      "SpeechUpdate (heard ''hello'')" 0 NetworkError quiet_hook]
    C1_disabled_while_in_flight [of quiet_hook one_turn_trace awaiting
      "SpeechUpdate quiet_hook" 0 NetworkError quiet_hook]
    C1_disabled_while_in_flight [of quiet_hook one_turn_trace awaiting
      "SpeechUpdate quiet_hook" 1 NetworkError quiet_hook]
    C1_disabled_while_in_flight [of quiet_hook one_turn_trace "mount unsupported_hook"
      "SpeechUpdate quiet_hook" 0 NetworkError quiet_hook]
  show ?thesis by simp
qed

text \<open>
  Claim C1 as stated fails when a second finalized transcript arrives while the first
  request is in flight: the first settlement enables the button although the second
  request has not settled.
\<close>

theorem C1_counterexample:
  "inflight (run (mount quiet_hook) overlapping_trace) \<noteq> []
   \<and> \<not> mic_disabled (run (mount quiet_hook) overlapping_trace)
   \<and> browserSupportsSpeechRecognition (speech (run (mount quiet_hook) overlapping_trace))"
  by (simp add: overlapping_trace_def sample_defs handler_defs)

text \<open>
  Claim C2 on the code. A request that gets a response of status 404 whose body decodes
  has failed, yet the promise chain does not reject and \<open>catch\<close> does not run: with the
  identifiers \<open>c1\<close> and \<open>m1\<close> kept from the turn before, the handler of a successful answer
  overwrites both with those of the body, and appends and speaks the \<open>answer\<close> of the body
  in place of the failure message. Only \<open>finally\<close> runs as for a failure.
\<close>

theorem C2_failure_by_status:
  "conversationRef threaded = \<lparr>id' = ''c1'', currentMessageId = ''m1''\<rparr>
   \<and> inflight threaded =
       [\<lparr>req_text = ''again'', req_conversationId = Some ''c1'',
         req_parentMessageId = Some ''m1''\<rparr>]
   \<and> \<not> is_2xx 404
   \<and> conversationRef (step threaded (Settle 0 not_found)) = \<lparr>id' = [], currentMessageId = []\<rparr>
   \<and> conversationRef (step threaded (Settle 0 not_found)) \<noteq> conversationRef threaded
   \<and> messages (step threaded (Settle 0 not_found)) =
       messages threaded @ [\<lparr>type = Response, text' = ''Not Found''\<rparr>]
   \<and> last (messages (step threaded (Settle 0 not_found))) \<noteq>
       \<lparr>type = Response, text' = failure_response\<rparr>
   \<and> calls (step threaded (Settle 0 not_found)) =
       calls threaded @ [SpeechSynthesis_cancel, SpeechSynthesis_speak ''Not Found'']
   \<and> \<not> isProcessing (step threaded (Settle 0 not_found))"
  by (simp add: threaded_state not_found_def handler_defs failure_response_def is_2xx_def)

text \<open>
  Claim C3. When the request in flight succeeds with the response \<open>res\<close>,
  \<open>conversationRef\<close> takes the two identifiers of \<open>res\<close>, a Response entry with exactly
  the answer text is appended, speech output is called with that text, and the button is
  enabled again: from the status AwaitingAnswer the turn returns to Idle.
\<close>

theorem C3_successful_request:
  assumes "i < length (inflight s)" and "fetch_then_json out = Resolved res"
  shows "conversationRef (step s (Settle i out)) =
           \<lparr>id' = conversationId res, currentMessageId = messageId res\<rparr>
       \<and> messages (step s (Settle i out)) =
           messages s @ [\<lparr>type = Response, text' = answer res\<rparr>]
       \<and> calls (step s (Settle i out)) =
           calls s @ [SpeechSynthesis_cancel, SpeechSynthesis_speak (answer res)]
       \<and> \<not> isProcessing (step s (Settle i out))
       \<and> \<not> mic_disabled (step s (Settle i out))
       \<and> (turnStatus s = AwaitingAnswer \<longrightarrow> turnStatus (step s (Settle i out)) = Idle)"
  using assms by (simp add: handler_defs mic_disabled_def turnStatus_def split: if_splits)

theorem C3_successful_request_witness:
  "0 < length (inflight awaiting)
   \<and> fetch_then_json (HttpResponse 200
        (Decoded \<lparr>answer = ''It is in NYC'', conversationId = ''c1'', messageId = ''m1''\<rparr>)) =
      Resolved \<lparr>answer = ''It is in NYC'', conversationId = ''c1'', messageId = ''m1''\<rparr>
   \<and> turnStatus awaiting = AwaitingAnswer
   \<and> conversationRef (step awaiting (Settle 0 (HttpResponse 200
        (Decoded \<lparr>answer = ''It is in NYC'', conversationId = ''c1'', messageId = ''m1''\<rparr>)))) =
      \<lparr>id' = ''c1'', currentMessageId = ''m1''\<rparr>
   \<and> last (calls (step awaiting (Settle 0 (HttpResponse 200
        (Decoded \<lparr>answer = ''It is in NYC'', conversationId = ''c1'', messageId = ''m1''\<rparr>))))) =
      SpeechSynthesis_speak ''It is in NYC''
   \<and> turnStatus (step awaiting (Settle 0 (HttpResponse 200
        (Decoded \<lparr>answer = ''It is in NYC'', conversationId = ''c1'', messageId = ''m1''\<rparr>)))) =
      Idle"
proof -
  have a: "0 < length (inflight awaiting)"
    by (simp add: awaiting_state)
  have b: "fetch_then_json (HttpResponse 200
        (Decoded \<lparr>answer = ''It is in NYC'', conversationId = ''c1'', messageId = ''m1''\<rparr>)) =
      Resolved \<lparr>answer = ''It is in NYC'', conversationId = ''c1'', messageId = ''m1''\<rparr>"
    by (simp add: fetch_then_json_def)
  have c: "turnStatus awaiting = AwaitingAnswer"
    by (simp add: awaiting_state turnStatus_def heard_def quiet_hook_def)
  from a b c C3_successful_request [OF a b] show ?thesis
    by (simp add: awaiting_state)
qed




text \<open>
  Claim C5, as the code has it. The transcript starts with one sample Prompt entry, and
  every run of the effect with a non-empty \<open>finalTranscript\<close> appends one, whatever the
  turn status: the number of Prompt entries is one plus the number of those runs.
\<close>

theorem C5_prompt_count:
  "length (filter is_prompt (messages (run (mount h) es))) =
     1 + length (filter (\<lambda>t. t \<noteq> []) (finalTranscript h # effect_runs (finalTranscript h) es))"
  by (simp add: run_prompts mount_def finalTranscript_effect_prompts initial_state_def
      initial_messages_def is_prompt_def)

text \<open>
  Claim C5 as stated fails before any event: the transcript holds one Prompt entry and no
  finalized transcript has been received.
\<close>

theorem C5_counterexample:
  "length (filter is_prompt (messages (run (mount quiet_hook) []))) = 1
   \<and> effect_runs (finalTranscript quiet_hook) [] = []
   \<and> finalTranscript quiet_hook = []"
  by (simp add: sample_defs initial_messages_def is_prompt_def)

text \<open>
  Claim C6 on the code. The promise chain never reads the status of the response: a
  response with any status whose body decodes runs the handler of a successful answer.
  At status 500 the body's \<open>answer\<close> is appended and spoken in place of the failure
  message, and \<open>conversationRef\<close> takes the identifiers of the body.
\<close>

theorem C6_status_not_checked:
  "step s (Settle i (HttpResponse status (Decoded res))) =
     step s (Settle i (HttpResponse 200 (Decoded res)))
   \<and> messages (step awaiting (Settle 0 server_error)) =
       initial_messages @
         [\<lparr>type = Prompt, text' = ''hello''\<rparr>,
          \<lparr>type = Response, text' = ''Internal Server Error''\<rparr>]
   \<and> last (messages (step awaiting (Settle 0 server_error))) \<noteq>
       \<lparr>type = Response, text' = failure_response\<rparr>
   \<and> last (calls (step awaiting (Settle 0 server_error))) =
       SpeechSynthesis_speak ''Internal Server Error''"
  by (simp add: awaiting_state server_error_def handler_defs failure_response_def)

text \<open>
  Claim C7, as the code has it. While not listening an entry is active when it is the
  last entry, or when it is the entry before the last and is a prompt; no other entry is
  active. While listening no entry is active, and the page shows the live transcript
  after the entries; while not listening it shows no live transcript.
\<close>

theorem C7_active_marking:
  "getIsActive False ms ty i =
     (Suc i = length ms \<or> (Suc (Suc i) = length ms \<and> ty = Prompt))
   \<and> getIsActive True ms ty i = False
   \<and> (browserSupportsSpeechRecognition (speech s) \<and> listening (speech s) \<longrightarrow>
        render s =
          Main_view (map (\<lambda>(index, m). (m, False)) (enumerate 0 (messages s)))
            (Some (transcript (speech s))) (mic_disabled s) (\<not> isMicrophoneAvailable (speech s)))
   \<and> (browserSupportsSpeechRecognition (speech s) \<and> \<not> listening (speech s) \<longrightarrow>
        render s =
          Main_view
            (map (\<lambda>(index, m).
                    (m, Suc index = length (messages s)
                        \<or> (Suc (Suc index) = length (messages s) \<and> type m = Prompt)))
               (enumerate 0 (messages s)))
            None (mic_disabled s) (\<not> isMicrophoneAvailable (speech s)))"
  by (simp add: getIsActive_positional render_def) (simp add: getIsActive_def)

theorem C7_active_marking_witness:
  "browserSupportsSpeechRecognition (speech (initial_state (quiet_hook\<lparr>listening := True, transcript := ''where''\<rparr>)))
   \<and> listening (speech (initial_state (quiet_hook\<lparr>listening := True, transcript := ''where''\<rparr>)))
   \<and> render (initial_state (quiet_hook\<lparr>listening := True, transcript := ''where''\<rparr>)) =
       Main_view [(initial_messages ! 0, False), (initial_messages ! 1, False)]
         (Some ''where'') False False
   \<and> browserSupportsSpeechRecognition (speech (initial_state quiet_hook))
   \<and> \<not> listening (speech (initial_state quiet_hook))
   \<and> render (initial_state quiet_hook) =
       Main_view [(initial_messages ! 0, True), (initial_messages ! 1, True)] None False False"
  using C7_active_marking [of initial_messages Prompt 0
      "initial_state (quiet_hook\<lparr>listening := True, transcript := ''where''\<rparr>)"]
    C7_active_marking [of initial_messages Prompt 0 "initial_state quiet_hook"]
  by (simp add: initial_state_def quiet_hook_def initial_messages_def mic_disabled_def
      enumerate_eq_zip upt_rec)

text \<open>
  Claim C7 as stated fails after a second turn: the two most recent prompts before the
  most recent response are the entries 0 and 2, and entry 0 is not active. It fails
  while an answer is awaited too: the most recent response is entry 1, and is not active.
\<close>

theorem C7_counterexample:
  "map type answered = [Prompt, Response, Prompt, Response]
   \<and> \<not> getIsActive False answered (type (answered ! 0)) 0
   \<and> map type asked = [Prompt, Response, Prompt]
   \<and> \<not> getIsActive False asked (type (asked ! 1)) 1"
  by (simp add: answered_def asked_def initial_messages_def getIsActive_def)

text \<open>
  Claim C8, as the code has it. A request that gets no response, or a body that does not
  decode, leaves \<open>conversationRef\<close> as it is; a request that gets a response of status
  2xx overwrites the conversation identifier with the \<open>conversationId\<close> of the response;
  a click and a change of the hook values leave it as it is. Once the identifier is not
  empty it stays so under every sequence of such events in which each response of status
  2xx carries a non-empty \<open>conversationId\<close>.
\<close>

theorem C8_conversation_id_kept:
  "(i < length (inflight s) \<and> fetch_then_json out = Rejected \<longrightarrow>
      conversationRef (step s (Settle i out)) = conversationRef s)
 \<and> (i < length (inflight s) \<and> is_2xx status \<longrightarrow>
      id' (conversationRef (step s (Settle i (HttpResponse status (Decoded res))))) =
        conversationId res)
 \<and> conversationRef (step s ClickMic) = conversationRef s
 \<and> conversationRef (step s (SpeechUpdate h)) = conversationRef s
 \<and> (id' (conversationRef s) \<noteq> [] \<and> nonempty_ids es \<longrightarrow>
      id' (conversationRef (run s es)) \<noteq> [])"
proof -
  have a: "i < length (inflight s) \<and> fetch_then_json out = Rejected \<longrightarrow>
      conversationRef (step s (Settle i out)) = conversationRef s"
    by (simp add: conversationRef_settle)
  have b: "i < length (inflight s) \<and> is_2xx status \<longrightarrow>
      id' (conversationRef (step s (Settle i (HttpResponse status (Decoded res))))) =
        conversationId res"
    by (simp add: conversationRef_settle fetch_then_json_def)
  have c: "conversationRef (step s ClickMic) = conversationRef s"
    by simp
  have d: "conversationRef (step s (SpeechUpdate h)) = conversationRef s"
    by simp
  have e: "id' (conversationRef (run s es)) \<noteq> []"
    if "id' (conversationRef s) \<noteq> []" and "nonempty_ids es"
    using that
  proof (induction es arbitrary: s)
    case Nil
    then show ?case by simp
  next
    case (Cons e es)
    from Cons.prems have "id' (conversationRef (step s e)) \<noteq> []"
      by (cases e rule: keeps_id.cases)
        (simp_all add: nonempty_ids_def conversationRef_settle fetch_then_json_def)
    with Cons.prems(2) show ?case
      by (simp add: Cons.IH nonempty_ids_def)
  qed
  from a b c d e show ?thesis by blast
qed

theorem C8_conversation_id_kept_witness:
  "0 < length (inflight threaded)
   \<and> fetch_then_json (HttpResponse 502 Undecodable) = Rejected
   \<and> conversationRef (step threaded (Settle 0 (HttpResponse 502 Undecodable))) =
       \<lparr>id' = ''c1'', currentMessageId = ''m1''\<rparr>
   \<and> is_2xx 201
   \<and> id' (conversationRef (step threaded (Settle 0 (HttpResponse 201
        (Decoded \<lparr>answer = ''yes'', conversationId = ''c2'', messageId = ''m2''\<rparr>))))) = ''c2''
   \<and> id' (conversationRef threaded) \<noteq> []
   \<and> nonempty_ids [Settle 0 NetworkError, SpeechUpdate (heard ''once more''), ClickMic,
        Settle 0 (HttpResponse 200
          (Decoded \<lparr>answer = ''yes'', conversationId = ''c2'', messageId = ''m2''\<rparr>))]
   \<and> id' (conversationRef (run threaded
        [Settle 0 NetworkError, SpeechUpdate (heard ''once more''), ClickMic,
         Settle 0 (HttpResponse 200
           (Decoded \<lparr>answer = ''yes'', conversationId = ''c2'', messageId = ''m2''\<rparr>))])) \<noteq> []"
proof -
  have a: "0 < length (inflight threaded)" "id' (conversationRef threaded) \<noteq> []"
    "conversationRef threaded = \<lparr>id' = ''c1'', currentMessageId = ''m1''\<rparr>"
    by (simp_all add: threaded_state)
  have b: "fetch_then_json (HttpResponse 502 Undecodable) = Rejected"
    by (simp add: fetch_then_json_def)
  have c: "is_2xx 201"
    by (simp add: is_2xx_def)
  have d: "nonempty_ids [Settle 0 NetworkError, SpeechUpdate (heard ''once more''), ClickMic,
        Settle 0 (HttpResponse 200
          (Decoded \<lparr>answer = ''yes'', conversationId = ''c2'', messageId = ''m2''\<rparr>))]"
    by (simp add: nonempty_ids_def is_2xx_def)
  from a b c d
    C8_conversation_id_kept [of 0 threaded "HttpResponse 502 Undecodable" 201
      "\<lparr>answer = ''yes'', conversationId = ''c2'', messageId = ''m2''\<rparr>" quiet_hook
      "[Settle 0 NetworkError, SpeechUpdate (heard ''once more''), ClickMic,
        Settle 0 (HttpResponse 200
          (Decoded \<lparr>answer = ''yes'', conversationId = ''c2'', messageId = ''m2''\<rparr>))]"]
  show ?thesis by simp
qed

text \<open>
  Claim C8 as stated fails when a later response of status 200 carries the empty string
  as \<open>conversationId\<close>: the identifier \<open>c1\<close> set by the first response is overwritten
  with it.
\<close>

theorem C8_counterexample:
  "id' (conversationRef (run (mount quiet_hook) (take 2 cleared_id_trace))) = ''c1''
   \<and> id' (conversationRef (run (mount quiet_hook) cleared_id_trace)) = []"
  by (simp add: cleared_id_trace_def sample_defs handler_defs)

text \<open>
  Claim C9. A click on the mic button in the Idle status first cancels speech output and
  then starts listening. A click while listening calls \<open>abortListening\<close> and nothing
  else: no entry is appended, no request is issued and nothing of the state changes.
\<close>

theorem C9_toggle_mic:
  "(browserSupportsSpeechRecognition (speech s) \<and> turnStatus s = Idle \<longrightarrow>
      calls (step s ClickMic) = calls s @ [SpeechSynthesis_cancel, StartListening]
    \<and> messages (step s ClickMic) = messages s)
 \<and> (mic_clickable s \<and> turnStatus s = Listening \<longrightarrow>
      step s ClickMic = s\<lparr>calls := calls s @ [AbortListening]\<rparr>
    \<and> messages (step s ClickMic) = messages s
    \<and> inflight (step s ClickMic) = inflight s)"
  by (auto simp add: recognizeSpeech_def mic_clickable_def mic_disabled_def turnStatus_def
      split: if_splits)

theorem C9_toggle_mic_witness:
  "browserSupportsSpeechRecognition (speech (mount quiet_hook))
   \<and> turnStatus (mount quiet_hook) = Idle
   \<and> calls (step (mount quiet_hook) ClickMic) = [SpeechSynthesis_cancel, StartListening]
   \<and> mic_clickable (run (mount quiet_hook) (take 2 one_turn_trace))
   \<and> turnStatus (run (mount quiet_hook) (take 2 one_turn_trace)) = Listening
   \<and> calls (step (run (mount quiet_hook) (take 2 one_turn_trace)) ClickMic) =
       [SpeechSynthesis_cancel, StartListening, AbortListening]
   \<and> messages (step (run (mount quiet_hook) (take 2 one_turn_trace)) ClickMic) =
       initial_messages"
  using C9_toggle_mic [of "mount quiet_hook"]
    C9_toggle_mic [of "run (mount quiet_hook) (take 2 one_turn_trace)"]
  by (simp add: one_turn_trace_def sample_defs turnStatus_def)

text \<open>
  Claim C10. When \<open>finalTranscript\<close> is the empty string the effect does nothing: no
  Prompt entry, no request, and \<open>messages\<close>, \<open>conversationRef\<close> and \<open>isProcessing\<close> are
  what they were. The same holds of the run of the effect at the first render.
\<close>

theorem C10_empty_final_transcript:
  assumes "finalTranscript h = []"
  shows "step s (SpeechUpdate h) = s\<lparr>speech := h\<rparr>
       \<and> messages (step s (SpeechUpdate h)) = messages s
       \<and> conversationRef (step s (SpeechUpdate h)) = conversationRef s
       \<and> isProcessing (step s (SpeechUpdate h)) = isProcessing s
       \<and> calls (step s (SpeechUpdate h)) = calls s
       \<and> inflight (step s (SpeechUpdate h)) = inflight s
       \<and> mount h = initial_state h"
  using assms by (simp add: finalTranscript_effect_def mount_def initial_state_def)

theorem C10_empty_final_transcript_witness:
  "finalTranscript quiet_hook = []
   \<and> step awaiting (SpeechUpdate quiet_hook) = awaiting\<lparr>speech := quiet_hook\<rparr>
   \<and> messages (step awaiting (SpeechUpdate quiet_hook)) =
       initial_messages @ [\<lparr>type = Prompt, text' = ''hello''\<rparr>]"
proof -
  have a: "finalTranscript quiet_hook = []"
    by (simp add: quiet_hook_def)
  from a C10_empty_final_transcript [OF a, of awaiting] show ?thesis
    by (simp add: awaiting_state)
qed


end
